theory Spec2Isabelle
  imports Complex_Main
begin

section \<open>Values of the block algebra\<close>

text \<open>
  The module \<^verbatim>\<open>xii/linalg/convert.py\<close> works on Python objects of a few kinds: numbers,
  backend matrices and vectors, and the lazy operator nodes of the block algebra
  (\<^verbatim>\<open>block_mul\<close>, \<^verbatim>\<open>block_add\<close>, \<^verbatim>\<open>block_sub\<close>, \<^verbatim>\<open>block_transpose\<close>). Every exception the
  code can raise is a value of \<open>error\<close>; a failed \<^verbatim>\<open>assert\<close> is \<open>AssertionError\<close>, and
  exceeding the interpreter's recursion limit is \<open>RecursionError\<close>.
\<close>

datatype error = AssertionError | ValueError | TypeError | AttributeError
  | NameError | IndexError | RecursionError

text \<open>
  A backend matrix reports its size and holds its entries; the entries are kept densely,
  row by row. Arithmetic on entries is exact (the kernels' rounding is not modelled).
\<close>

datatype matrix = Matrix (nrows: nat) (ncols: nat) (entries: "real list list")

definition wf_matrix :: "matrix \<Rightarrow> bool" where
  "wf_matrix A = (length (entries A) = nrows A \<and> list_all (\<lambda>r. length r = ncols A) (entries A))"

text \<open>
  An operand: \<open>Mul\<close> holds the chain of a \<^verbatim>\<open>block_mul\<close>, \<open>Add\<close>, \<open>Sub\<close> and \<open>Tr\<close> the
  attributes \<^verbatim>\<open>A\<close> (and \<^verbatim>\<open>B\<close>) of the other nodes, \<open>Opaque\<close> is a node of another class
  that has an attribute \<^verbatim>\<open>A\<close>, and \<open>Other\<close> a node of another class that has none.
  \<open>num_val\<close> reads the value of a number and \<open>as_petsc\<close> the matrix behind a matrix
  handle; the code applies them only after \<^verbatim>\<open>is_number\<close> or \<^verbatim>\<open>is_petsc_mat\<close>.
\<close>

datatype expr =
    Num (num_val: real)
  | Mat (as_petsc: matrix)
  | Vec "real list"
  | Mul "expr list"
  | Add expr expr
  | Sub expr expr
  | Tr expr
  | Opaque expr
  | Other

text \<open>What \<^verbatim>\<open>get_dims\<close> returns: \<^verbatim>\<open>None\<close>, an integer (a vector's size) or a pair.\<close>

datatype dims = DNone | DVec nat | DMat nat nat

text \<open>
  Modelled from the spec: the classification predicates of \<^verbatim>\<open>xii.linalg.matrix_utils\<close>
  (is-matrix-handle, is-vector-handle, is-scalar), which the module imports.
\<close>

definition is_petsc_mat :: "expr \<Rightarrow> bool" where
  "is_petsc_mat x = (case x of Mat _ \<Rightarrow> True | _ \<Rightarrow> False)"

definition is_petsc_vec :: "expr \<Rightarrow> bool" where
  "is_petsc_vec x = (case x of Vec _ \<Rightarrow> True | _ \<Rightarrow> False)"

definition is_number :: "expr \<Rightarrow> bool" where
  "is_number x = (case x of Num _ \<Rightarrow> True | _ \<Rightarrow> False)"

text \<open>The \<^verbatim>\<open>isinstance\<close> tests of the dispatch.\<close>

definition is_block_mul :: "expr \<Rightarrow> bool" where
  "is_block_mul x = (case x of Mul _ \<Rightarrow> True | _ \<Rightarrow> False)"

definition is_block_add :: "expr \<Rightarrow> bool" where
  "is_block_add x = (case x of Add _ _ \<Rightarrow> True | _ \<Rightarrow> False)"

definition is_block_sub :: "expr \<Rightarrow> bool" where
  "is_block_sub x = (case x of Sub _ _ \<Rightarrow> True | _ \<Rightarrow> False)"

definition is_block_transpose :: "expr \<Rightarrow> bool" where
  "is_block_transpose x = (case x of Tr _ \<Rightarrow> True | _ \<Rightarrow> False)"

definition is_block_sum :: "expr \<Rightarrow> bool" where
  "is_block_sum x = (is_block_add x \<or> is_block_sub x)"

text \<open>Attribute access: a class without the attribute raises \<open>AttributeError\<close>.\<close>

fun attr_A :: "expr \<Rightarrow> error + expr" where
  "attr_A (Add A B) = Inr A"
| "attr_A (Sub A B) = Inr A"
| "attr_A (Tr A) = Inr A"
| "attr_A (Opaque A) = Inr A"
| "attr_A _ = Inl AttributeError"

fun attr_B :: "expr \<Rightarrow> error + expr" where
  "attr_B (Add A B) = Inr B"
| "attr_B (Sub A B) = Inr B"
| "attr_B _ = Inl AttributeError"

fun attr_chain :: "expr \<Rightarrow> error + expr list" where
  "attr_chain (Mul c) = Inr c"
| "attr_chain _ = Inl AttributeError"

subsection \<open>The backend kernels\<close>

text \<open>
  The PETSc calls of the reducers: \<^verbatim>\<open>transpose\<close>, \<^verbatim>\<open>matMult\<close>, \<^verbatim>\<open>copy\<close> followed by
  \<^verbatim>\<open>axpy\<close>, and \<^verbatim>\<open>copy\<close> followed by \<^verbatim>\<open>scale\<close>.
\<close>

definition mat_transpose :: "matrix \<Rightarrow> matrix" where
  "mat_transpose A =
     Matrix (ncols A) (nrows A) (map (\<lambda>j. map (\<lambda>row. row ! j) (entries A)) [0..<ncols A])"

definition mat_mult :: "matrix \<Rightarrow> matrix \<Rightarrow> matrix" where
  "mat_mult A B =
     Matrix (nrows A) (ncols B)
       (map (\<lambda>row. map (\<lambda>j. sum_list (map2 (\<lambda>a brow. a * brow ! j) row (entries B)))
                       [0..<ncols B])
            (entries A))"

definition mat_axpy :: "real \<Rightarrow> matrix \<Rightarrow> matrix \<Rightarrow> matrix" where
  "mat_axpy alpha A B =
     Matrix (nrows A) (ncols A)
       (map2 (\<lambda>ra rb. map2 (\<lambda>a b. a + alpha * b) ra rb) (entries A) (entries B))"

definition mat_scale :: "real \<Rightarrow> matrix \<Rightarrow> matrix" where
  "mat_scale s A = Matrix (nrows A) (ncols A) (map (map (\<lambda>a. s * a)) (entries A))"

subsection \<open>The operators of the block algebra\<close>

text \<open>
  The reducers build new nodes with Python's \<^verbatim>\<open>*\<close>, \<^verbatim>\<open>+\<close> and \<^verbatim>\<open>-\<close>. On two numbers
  these are arithmetic. Where the operation is carried out on a vector handle (a product
  whose right operand is a vector, a vector scaled by a number, a sum or difference of
  vectors and numbers) the backend computes a new vector or raises: that computation is
  outside the module and is a parameter \<open>V\<close> of the model. A sum or difference node has
  no product with a number or with another sum or difference, on either side: Python
  raises \<open>TypeError\<close>. In every other case the block algebra returns a lazy node; a
  \<^verbatim>\<open>block_mul\<close> splices the chains of its operands.
\<close>

datatype binop = OpMul | OpAdd | OpSub

type_synonym vec_arith = "binop \<Rightarrow> expr \<Rightarrow> expr \<Rightarrow> error + real list"

definition chain_of :: "expr \<Rightarrow> expr list" where
  "chain_of x = (case x of Mul c \<Rightarrow> c | _ \<Rightarrow> [x])"

definition py_mul :: "vec_arith \<Rightarrow> expr \<Rightarrow> expr \<Rightarrow> error + expr" where
  "py_mul V x y =
     (case (x, y) of
        (Num a, Num b) \<Rightarrow> Inr (Num (a * b))
      | _ \<Rightarrow>
          if is_petsc_vec y \<or> (is_petsc_vec x \<and> is_number y)
          then map_sum id Vec (V OpMul x y)
          else if (is_block_sum x \<and> (is_number y \<or> is_block_sum y))
                  \<or> (is_number x \<and> is_block_sum y)
          then Inl TypeError
          else Inr (Mul (chain_of x @ chain_of y)))"

definition py_add :: "vec_arith \<Rightarrow> expr \<Rightarrow> expr \<Rightarrow> error + expr" where
  "py_add V x y =
     (case (x, y) of
        (Num a, Num b) \<Rightarrow> Inr (Num (a + b))
      | _ \<Rightarrow>
          if (is_petsc_vec x \<or> is_number x) \<and> (is_petsc_vec y \<or> is_number y)
          then map_sum id Vec (V OpAdd x y)
          else Inr (Add x y))"

definition py_sub :: "vec_arith \<Rightarrow> expr \<Rightarrow> expr \<Rightarrow> error + expr" where
  "py_sub V x y =
     (case (x, y) of
        (Num a, Num b) \<Rightarrow> Inr (Num (a - b))
      | _ \<Rightarrow>
          if (is_petsc_vec x \<or> is_number x) \<and> (is_petsc_vec y \<or> is_number y)
          then map_sum id Vec (V OpSub x y)
          else Inr (Sub x y))"

text \<open>\<^verbatim>\<open>reduce(operator.mul, B)\<close>: a left fold; on an empty sequence it raises.\<close>

fun reduce_from :: "vec_arith \<Rightarrow> expr \<Rightarrow> expr list \<Rightarrow> error + expr" where
  "reduce_from V acc [] = Inr acc"
| "reduce_from V acc (x # xs) =
     (case py_mul V acc x of Inl e \<Rightarrow> Inl e | Inr acc' \<Rightarrow> reduce_from V acc' xs)"

definition reduce_mul :: "vec_arith \<Rightarrow> expr list \<Rightarrow> error + expr" where
  "reduce_mul V xs = (case xs of [] \<Rightarrow> Inl TypeError | x # rest \<Rightarrow> reduce_from V x rest)"

section \<open>Dimension inference: \<^verbatim>\<open>get_dims\<close>\<close>

text \<open>
  The two assertions on the shapes of a product. \<^verbatim>\<open>len\<close> of an integer or of \<^verbatim>\<open>None\<close>
  is a \<open>TypeError\<close>.
\<close>

fun mul_dims :: "dims \<Rightarrow> dims \<Rightarrow> error + dims" where
  "mul_dims (DMat r c) (DMat r' c') = (if c = r' then Inr (DMat r c') else Inl AssertionError)"
| "mul_dims _ _ = Inl TypeError"

text \<open>
  \<^verbatim>\<open>get_dims\<close> recurses on operands and, for a chain of three or more, on the product
  that \<^verbatim>\<open>reduce\<close> builds from the tail of the chain. The product is a new object, so the
  recursion is not structural; it terminates because the product weighs less than the
  chain it was cut from.
\<close>

fun weight :: "expr \<Rightarrow> nat" where
  "weight (Mul xs) = sum_list (map (\<lambda>x. Suc (weight x)) xs)"
| "weight (Add a b) = Suc (weight a + weight b)"
| "weight (Sub a b) = Suc (weight a + weight b)"
| "weight (Tr a) = Suc (weight a)"
| "weight (Opaque a) = Suc (weight a)"
| "weight _ = 0"

lemma weight_chain_of: "sum_list (map (\<lambda>x. Suc (weight x)) (chain_of x)) \<le> Suc (weight x)"
  by (cases x) (simp_all add: chain_of_def)

lemma weight_le_chain: "weight p \<le> sum_list (map (\<lambda>x. Suc (weight x)) (chain_of p))"
  by (cases p) (simp_all add: chain_of_def)

lemma weight_py_mul:
  assumes "py_mul V x y = Inr p"
  shows "sum_list (map (\<lambda>x. Suc (weight x)) (chain_of p))
           \<le> sum_list (map (\<lambda>x. Suc (weight x)) (chain_of x)) + Suc (weight y)"
proof -
  consider (num) a b where "x = Num a" "y = Num b" "p = Num (a * b)"
    | (vec) v where "p = Vec v"
    | (node) "p = Mul (chain_of x @ chain_of y)"
    using assms
    by (auto simp: py_mul_def map_sum_def split: expr.splits if_splits sum.splits)
  then show ?thesis
  proof cases
    case num
    then show ?thesis by (simp add: chain_of_def)
  next
    case vec
    then show ?thesis by (simp add: chain_of_def)
  next
    case node
    have "sum_list (map (\<lambda>x. Suc (weight x)) (chain_of p))
            = sum_list (map (\<lambda>x. Suc (weight x)) (chain_of x))
              + sum_list (map (\<lambda>x. Suc (weight x)) (chain_of y))"
      using node by (simp add: chain_of_def)
    then show ?thesis using weight_chain_of [of y] by simp
  qed
qed

lemma weight_reduce_from:
  "reduce_from V acc xs = Inr p \<Longrightarrow>
     sum_list (map (\<lambda>x. Suc (weight x)) (chain_of p))
       \<le> sum_list (map (\<lambda>x. Suc (weight x)) (chain_of acc))
          + sum_list (map (\<lambda>x. Suc (weight x)) xs)"
proof (induction xs arbitrary: acc)
  case Nil
  then show ?case by simp
next
  case (Cons x xs)
  from Cons.prems obtain acc' where a: "py_mul V acc x = Inr acc'"
    and r: "reduce_from V acc' xs = Inr p"
    by (auto split: sum.splits)
  from Cons.IH [OF r] weight_py_mul [OF a] show ?case by simp
qed

lemma weight_reduce_mul:
  assumes "reduce_mul V xs = Inr p"
  shows "weight p \<le> sum_list (map (\<lambda>x. Suc (weight x)) xs)"
proof (cases xs)
  case Nil
  with assms show ?thesis by (simp add: reduce_mul_def)
next
  case (Cons x rest)
  with assms have "reduce_from V x rest = Inr p" by (simp add: reduce_mul_def)
  from weight_reduce_from [OF this] weight_chain_of [of x] weight_le_chain [of p]
  show ?thesis using Cons by simp
qed

function (sequential) get_dims :: "vec_arith \<Rightarrow> expr \<Rightarrow> error + dims" where
  "get_dims V (Vec v) = Inr (DVec (length v))"
| "get_dims V (Mat m) = Inr (DMat (nrows m) (ncols m))"
| "get_dims V (Num x) = Inr DNone"
| "get_dims V (Mul []) = Inl IndexError"
| "get_dims V (Mul [A]) =
     (case get_dims V A of Inl e \<Rightarrow> Inl e | Inr dims_A \<Rightarrow> Inl IndexError)"
| "get_dims V (Mul (A # B0 # rest)) =
     (case get_dims V A of Inl e \<Rightarrow> Inl e | Inr dims_A \<Rightarrow>
     (case get_dims V B0 of Inl e \<Rightarrow> Inl e | Inr dims_B \<Rightarrow>
        if dims_A = DNone then Inr dims_B
        else if dims_B = DNone then Inr dims_A
        else if length (B0 # rest) = 1 then mul_dims dims_A dims_B
        else (case reduce_mul V (B0 # rest) of Inl e \<Rightarrow> Inl e | Inr p \<Rightarrow>
             (case get_dims V p of Inl e \<Rightarrow> Inl e
              | Inr dims_B' \<Rightarrow> mul_dims dims_A dims_B'))))"
| "get_dims V (Add A B) =
     (if is_number A then get_dims V B
      else if is_number B then get_dims V A
      else (case get_dims V A of Inl e \<Rightarrow> Inl e | Inr dims \<Rightarrow>
           (case get_dims V B of Inl e \<Rightarrow> Inl e | Inr dims_B \<Rightarrow>
              if dims = dims_B then Inr dims else Inl AssertionError)))"
| "get_dims V (Sub A B) =
     (if is_number A then get_dims V B
      else if is_number B then get_dims V A
      else (case get_dims V A of Inl e \<Rightarrow> Inl e | Inr dims \<Rightarrow>
           (case get_dims V B of Inl e \<Rightarrow> Inl e | Inr dims_B \<Rightarrow>
              if dims = dims_B then Inr dims else Inl AssertionError)))"
| "get_dims V (Tr A) =
     (case get_dims V A of Inl e \<Rightarrow> Inl e
      | Inr dims \<Rightarrow> (case dims of DMat r c \<Rightarrow> Inr (DMat c r) | _ \<Rightarrow> Inl TypeError))"
| "get_dims V (Opaque A) = (if is_petsc_mat A then get_dims V A else Inl AssertionError)"
| "get_dims V Other = Inl ValueError"
  by pat_completeness auto
termination
proof (relation "measure (\<lambda>(V, e). weight e)", goal_cases)
  case 1
  then show ?case by simp
next
  case (5 V A B0 rest dA dB p)
  then show ?case using weight_reduce_mul [of V "B0 # rest" p] by simp
qed simp_all

section \<open>The collapser\<close>

text \<open>
  The base cases of the reducers for sums and products of two matrices: the assertion on
  the sizes, then the kernel.
\<close>

definition axpy_checked :: "real \<Rightarrow> matrix \<Rightarrow> matrix \<Rightarrow> error + expr" where
  "axpy_checked alpha A B =
     (if (nrows A, ncols A) = (nrows B, ncols B) then Inr (Mat (mat_axpy alpha A B))
      else Inl AssertionError)"

definition mat_mult_checked :: "matrix \<Rightarrow> matrix \<Rightarrow> error + expr" where
  "mat_mult_checked A B =
     (if ncols A = nrows B then Inr (Mat (mat_mult A B)) else Inl AssertionError)"

text \<open>
  \<^verbatim>\<open>collapse\<close> and its four reducers call one another. The first argument after \<open>V\<close>
  is the depth the interpreter still allows: every call uses one level, and a call with
  none left raises \<open>RecursionError\<close>. A result \<open>Inr\<close> is a value the Python function
  returns.
\<close>

fun collapse :: "vec_arith \<Rightarrow> nat \<Rightarrow> expr \<Rightarrow> error + expr"
  and collapse_tr :: "vec_arith \<Rightarrow> nat \<Rightarrow> expr \<Rightarrow> error + expr"
  and collapse_add :: "vec_arith \<Rightarrow> nat \<Rightarrow> expr \<Rightarrow> error + expr"
  and collapse_sub :: "vec_arith \<Rightarrow> nat \<Rightarrow> expr \<Rightarrow> error + expr"
  and collapse_mul :: "vec_arith \<Rightarrow> nat \<Rightarrow> expr \<Rightarrow> error + expr"
where
  "collapse V 0 bmat = Inl RecursionError"
| "collapse V (Suc n) bmat =
     (if is_petsc_mat bmat \<or> is_number bmat \<or> is_petsc_vec bmat then Inr bmat
      else if is_block_mul bmat then collapse_mul V n bmat
      else if is_block_add bmat then collapse_add V n bmat
      else if is_block_sub bmat then collapse_sub V n bmat
      else if is_block_transpose bmat then collapse_tr V n bmat
      else (case attr_A bmat of
              Inr A \<Rightarrow> if is_petsc_mat A then Inr A else Inl AssertionError
            | Inl e \<Rightarrow> Inl ValueError))"
| "collapse_tr V 0 bmat = Inl RecursionError"
| "collapse_tr V (Suc n) bmat =
     (case attr_A bmat of Inl e \<Rightarrow> Inl e | Inr A \<Rightarrow>
        if is_petsc_mat A then Inr (Mat (mat_transpose (as_petsc A)))
        else (case collapse V n bmat of Inl e \<Rightarrow> Inl e
              | Inr c \<Rightarrow> collapse_tr V n c))"
| "collapse_add V 0 bmat = Inl RecursionError"
| "collapse_add V (Suc n) bmat =
     (case attr_A bmat of Inl e \<Rightarrow> Inl e | Inr A \<Rightarrow>
     (case attr_B bmat of Inl e \<Rightarrow> Inl e | Inr B \<Rightarrow>
        if is_petsc_mat A \<and> is_petsc_mat B then axpy_checked 1 (as_petsc A) (as_petsc B)
        else (case collapse V n A of Inl e \<Rightarrow> Inl e | Inr cA \<Rightarrow>
             (case collapse V n B of Inl e \<Rightarrow> Inl e | Inr cB \<Rightarrow>
             (case py_add V cA cB of Inl e \<Rightarrow> Inl e
              | Inr s \<Rightarrow> collapse_add V n s)))))"
| "collapse_sub V 0 bmat = Inl RecursionError"
| "collapse_sub V (Suc n) bmat =
     (case attr_A bmat of Inl e \<Rightarrow> Inl e | Inr A \<Rightarrow>
     (case attr_B bmat of Inl e \<Rightarrow> Inl e | Inr B \<Rightarrow>
        if is_petsc_mat A \<and> is_petsc_mat B then axpy_checked (- 1) (as_petsc A) (as_petsc B)
        else (case collapse V n A of Inl e \<Rightarrow> Inl e | Inr cA \<Rightarrow>
             (case collapse V n B of Inl e \<Rightarrow> Inl e | Inr cB \<Rightarrow>
             (case py_sub V cA cB of Inl e \<Rightarrow> Inl e
              | Inr s \<Rightarrow> collapse_sub V n s)))))"
| "collapse_mul V 0 bmat = Inl RecursionError"
| "collapse_mul V (Suc n) bmat =
     (case attr_chain bmat of Inl e \<Rightarrow> Inl e | Inr chain \<Rightarrow>
     (case chain of [] \<Rightarrow> Inl IndexError | A # B \<Rightarrow>
        if length B = 1 then
          (let B = hd B in
           if is_petsc_mat A \<and> is_petsc_mat B then mat_mult_checked (as_petsc A) (as_petsc B)
           else if is_petsc_mat A \<and> is_number B
             then Inr (Mat (mat_scale (num_val B) (as_petsc A)))
           else if is_petsc_mat B \<and> is_number A
             then Inr (Mat (mat_scale (num_val A) (as_petsc B)))
           else (case collapse V n A of Inl e \<Rightarrow> Inl e | Inr cA \<Rightarrow>
                (case collapse V n B of Inl e \<Rightarrow> Inl e | Inr cB \<Rightarrow>
                (case py_mul V cA cB of Inl e \<Rightarrow> Inl e
                 | Inr p \<Rightarrow> collapse V n p))))
        else
          (case collapse V n A of Inl e \<Rightarrow> Inl e | Inr cA \<Rightarrow>
          (case reduce_mul V B of Inl e \<Rightarrow> Inl e | Inr r \<Rightarrow>
          (case collapse V n r of Inl e \<Rightarrow> Inl e | Inr cr \<Rightarrow>
          (case py_mul V cA cr of Inl e \<Rightarrow> Inl e
           | Inr p \<Rightarrow> collapse_mul V n p))))))"

section \<open>Block structures and their sizes\<close>

text \<open>
  The argument of \<^verbatim>\<open>convert\<close> and \<^verbatim>\<open>bmat_sizes\<close>: a \<^verbatim>\<open>block_vec\<close>, a \<^verbatim>\<open>block_mat\<close>
  (whose \<^verbatim>\<open>blocks\<close> is a two-dimensional array, here the list of its rows), or anything
  else. The array of a \<^verbatim>\<open>block_mat\<close> is rectangular: every row has the length of the
  first.
\<close>

datatype block = Block_vec "expr list" | Block_mat "expr list list" | Plain expr

definition grid_ncols :: "'a list list \<Rightarrow> nat" where
  "grid_ncols g = (case g of [] \<Rightarrow> 0 | row # _ \<Rightarrow> length row)"

definition rectangular :: "'a list list \<Rightarrow> bool" where
  "rectangular g = list_all (\<lambda>row. length row = grid_ncols g) g"

text \<open>The columns of a rectangular array (\<^verbatim>\<open>bmat.T\<close>).\<close>

definition grid_T :: "'a list list \<Rightarrow> 'a list list" where
  "grid_T g = map (\<lambda>j. map (\<lambda>row. row ! j) g) [0..<grid_ncols g]"

text \<open>A loop or comprehension whose body may raise: the first exception ends it.\<close>

fun traverse :: "('a \<Rightarrow> error + 'b) \<Rightarrow> 'a list \<Rightarrow> error + 'b list" where
  "traverse f [] = Inr []"
| "traverse f (x # xs) =
     (case f x of Inl e \<Rightarrow> Inl e
      | Inr y \<Rightarrow> (case traverse f xs of Inl e \<Rightarrow> Inl e | Inr ys \<Rightarrow> Inr (y # ys)))"

text \<open>\<^verbatim>\<open>dim[k]\<close> for a shape that is not \<^verbatim>\<open>None\<close>: an integer cannot be subscripted.\<close>

fun dim_index :: "nat \<Rightarrow> dims \<Rightarrow> error + nat" where
  "dim_index k (DMat r c) = (if k = 0 then Inr r else Inr c)"
| "dim_index k _ = Inl TypeError"

text \<open>
  The body of the two loops of \<^verbatim>\<open>bmat_sizes\<close>, for one row (\<open>k = 0\<close>) or one column
  (\<open>k = 1\<close>): the shapes of all cells, the \<open>k\<close>-th component of those that are not
  \<^verbatim>\<open>None\<close>, as a set; the set must have one element, which is the size.
\<close>

definition line_size :: "vec_arith \<Rightarrow> nat \<Rightarrow> expr list \<Rightarrow> error + nat" where
  "line_size V k line =
     (case traverse (get_dims V) line of Inl e \<Rightarrow> Inl e | Inr ds \<Rightarrow>
     (case traverse (dim_index k) (filter (\<lambda>d. d \<noteq> DNone) ds) of Inl e \<Rightarrow> Inl e
      | Inr sizes \<Rightarrow>
          (case remdups sizes of [s] \<Rightarrow> Inr s | _ \<Rightarrow> Inl AssertionError)))"

text \<open>
  The vector branch of \<^verbatim>\<open>bmat_sizes\<close> reads \<^verbatim>\<open>block_vec.blocks\<close>: the attribute
  \<^verbatim>\<open>blocks\<close> of the class \<^verbatim>\<open>block_vec\<close>, not of the argument. The class has methods
  only (\<^verbatim>\<open>blocks\<close> is set on each instance by the constructor), so the lookup raises.
\<close>

definition class_block_vec_blocks :: "error + expr list" where
  "class_block_vec_blocks = Inl AttributeError"

datatype sizes = Vec_sizes "dims list" | Mat_sizes "nat list" "nat list"

definition bmat_sizes :: "vec_arith \<Rightarrow> block \<Rightarrow> error + sizes" where
  "bmat_sizes V bmat =
     (case bmat of
        Block_vec bs \<Rightarrow>
          (case class_block_vec_blocks of Inl e \<Rightarrow> Inl e | Inr blocks \<Rightarrow>
          (case traverse (get_dims V) blocks of Inl e \<Rightarrow> Inl e
           | Inr ds \<Rightarrow> Inr (Vec_sizes ds)))
      | Block_mat g \<Rightarrow>
          (case traverse (line_size V 0) g of Inl e \<Rightarrow> Inl e | Inr row_sizes \<Rightarrow>
          (case traverse (line_size V 1) (grid_T g) of Inl e \<Rightarrow> Inl e
           | Inr col_sizes \<Rightarrow> Inr (Mat_sizes row_sizes col_sizes)))
      | Plain x \<Rightarrow> Inl ValueError)"

section \<open>Monolithic assembly: \<^verbatim>\<open>convert\<close>\<close>

text \<open>
  Modelled from the spec: \<^verbatim>\<open>diagonal_matrix\<close> of \<^verbatim>\<open>xii.linalg.matrix_utils\<close>, the scalar
  times the identity block of the given size.
\<close>

definition diagonal_matrix :: "nat \<Rightarrow> real \<Rightarrow> matrix" where
  "diagonal_matrix n s =
     Matrix n n (map (\<lambda>i. map (\<lambda>j. if i = j then s else 0) [0..<n]) [0..<n])"

text \<open>\<^verbatim>\<open>np.hstack\<close> of the local values of the components; it needs one array at least.\<close>

definition block_vec_to_numpy :: "expr list \<Rightarrow> error + real list" where
  "block_vec_to_numpy bvec =
     (case traverse (\<lambda>v. case v of Vec xs \<Rightarrow> Inr xs | _ \<Rightarrow> Inl AttributeError) bvec of
        Inl e \<Rightarrow> Inl e
      | Inr arrays \<Rightarrow> if arrays = [] then Inl ValueError else Inr (concat arrays))"

text \<open>
  The auxiliary sparse library's block concatenation (\<^verbatim>\<open>scipy.sparse.bmat\<close>). The height
  of a block row is taken from its blocks that are not \<^verbatim>\<open>None\<close>: a length of 0 counts as
  not yet known, two different lengths are an error, and so is a row or column whose
  length is still 0 at the end (also when there is no row or column at all). What the
  library does with a row or column of \<^verbatim>\<open>None\<close> only, and with an empty grid, differs
  between its releases (an error of one kind or another, or blocks of size zero); the
  properties below are stated for grids in which every row and column holds a matrix.
\<close>

fun block_length :: "nat \<Rightarrow> nat list \<Rightarrow> error + nat" where
  "block_length len [] = (if len = 0 then Inl ValueError else Inr len)"
| "block_length len (n # ns) =
     (if len = 0 then block_length n ns
      else if len \<noteq> n then Inl ValueError
      else block_length len ns)"

definition stored :: "matrix option list \<Rightarrow> matrix list" where
  "stored line = concat (map (\<lambda>b. case b of None \<Rightarrow> [] | Some A \<Rightarrow> [A]) line)"

definition block_row :: "nat \<Rightarrow> nat list \<Rightarrow> matrix option list \<Rightarrow> real list list" where
  "block_row h widths line =
     map (\<lambda>r. concat (map2 (\<lambda>w b. case b of None \<Rightarrow> replicate w 0
                                         | Some A \<Rightarrow> entries A ! r) widths line))
         [0..<h]"

definition numpy_block_mat :: "matrix option list list \<Rightarrow> error + matrix" where
  "numpy_block_mat blocks =
     (case traverse (\<lambda>line. block_length 0 (map nrows (stored line))) blocks of
        Inl e \<Rightarrow> Inl e
      | Inr brow_lengths \<Rightarrow>
     (case traverse (\<lambda>line. block_length 0 (map ncols (stored line))) (grid_T blocks) of
        Inl e \<Rightarrow> Inl e
      | Inr bcol_lengths \<Rightarrow>
          if brow_lengths = [] \<or> bcol_lengths = [] then Inl ValueError
          else Inr (Matrix (sum_list brow_lengths) (sum_list bcol_lengths)
                      (concat (map2 (\<lambda>h line. block_row h bcol_lengths line)
                                 brow_lengths blocks)))))"

text \<open>
  \<^verbatim>\<open>block_mat_to_numpy\<close> on one cell (a matrix in compressed-row form, \<^verbatim>\<open>None\<close> for a
  number) and on the grid; \<^verbatim>\<open>numpy_to_petsc\<close> wraps the result as a backend matrix again.
\<close>

definition cell_to_numpy :: "expr \<Rightarrow> error + matrix option" where
  "cell_to_numpy b =
     (if is_petsc_mat b then Inr (Some (as_petsc b))
      else if is_number b then Inr None
      else Inl AttributeError)"

definition block_mat_to_numpy :: "expr list list \<Rightarrow> error + matrix" where
  "block_mat_to_numpy blocks =
     (case traverse (traverse cell_to_numpy) blocks of Inl e \<Rightarrow> Inl e
      | Inr cells \<Rightarrow> numpy_block_mat cells)"

definition numpy_to_petsc :: "matrix \<Rightarrow> expr" where
  "numpy_to_petsc mat = Mat mat"

text \<open>The body of the loop of \<^verbatim>\<open>convert\<close> over the blocks, for the block at \<open>(i, j)\<close>.\<close>

definition convert_cell ::
  "vec_arith \<Rightarrow> nat \<Rightarrow> nat list \<Rightarrow> nat list \<Rightarrow> nat \<Rightarrow> nat \<Rightarrow> expr \<Rightarrow> error + expr" where
  "convert_cell V n row_sizes col_sizes i j block =
     (case collapse V n block of Inl e \<Rightarrow> Inl e | Inr A \<Rightarrow>
        if is_number A then
          (if num_val A \<noteq> 0 then
             (if row_sizes ! i = col_sizes ! j
              then Inr (Mat (diagonal_matrix (row_sizes ! i) (num_val A)))
              else Inl AssertionError)
           else Inr (Num 0))
        else Inr A)"

text \<open>
  \<^verbatim>\<open>convert\<close>. The argument \<open>algorithm\<close> is used for its truth value only: \<^verbatim>\<open>None\<close> and
  the empty string opt out of the monolithic matrix, every other value takes the path
  through \<^verbatim>\<open>block_mat_to_numpy\<close>. \<open>n\<close> is the depth left for the calls of \<^verbatim>\<open>collapse\<close>.
  The loop pairs the flattened blocks with the index pairs \<open>(i, j)\<close> in row-major order;
  for a rectangular array that is the enumeration of the rows and of the cells of each.
\<close>

definition falsy :: "string option \<Rightarrow> bool" where
  "falsy algorithm = (algorithm = None \<or> algorithm = Some [])"

definition convert :: "vec_arith \<Rightarrow> nat \<Rightarrow> block \<Rightarrow> string option \<Rightarrow> error + block" where
  "convert V n bmat algorithm =
     (case bmat of
        Block_vec bs \<Rightarrow>
          (case block_vec_to_numpy bs of Inl e \<Rightarrow> Inl e | Inr array \<Rightarrow> Inr (Plain (Vec array)))
      | Block_mat g \<Rightarrow>
          (case bmat_sizes V bmat of Inl e \<Rightarrow> Inl e
           | Inr (Vec_sizes ds) \<Rightarrow> Inl ValueError
           | Inr (Mat_sizes row_sizes col_sizes) \<Rightarrow>
          (case traverse (\<lambda>(i, row).
                    traverse (\<lambda>(j, block). convert_cell V n row_sizes col_sizes i j block)
                      (enumerate 0 row))
                  (enumerate 0 g) of
             Inl e \<Rightarrow> Inl e
           | Inr blocks \<Rightarrow>
               if \<not> list_all (list_all (\<lambda>b. is_petsc_mat b \<or> is_number b)) blocks
               then Inl AssertionError
               else if falsy algorithm then Inr (Block_mat blocks)
               else (case block_mat_to_numpy blocks of Inl e \<Rightarrow> Inl e
                     | Inr array \<Rightarrow> Inr (Plain (numpy_to_petsc array)))))
      | Plain x \<Rightarrow> (case collapse V n x of Inl e \<Rightarrow> Inl e | Inr r \<Rightarrow> Inr (Plain r)))"

section \<open>Row-streamed assembly: \<^verbatim>\<open>block_mat_to_petsc\<close>\<close>

text \<open>
  The first statement of the function calls \<^verbatim>\<open>get_sizes\<close>. The module defines
  \<^verbatim>\<open>bmat_sizes\<close>, and imports seven names from \<^verbatim>\<open>xii.linalg.matrix_utils\<close>; the name
  \<^verbatim>\<open>get_sizes\<close> is neither defined nor imported, so looking it up raises \<open>NameError\<close>.
\<close>

definition global_get_sizes :: "error + (block \<Rightarrow> error + nat list \<times> nat list)" where
  "global_get_sizes = Inl NameError"

text \<open>
  \<^verbatim>\<open>iter_rows\<close> of a block yields its rows as pairs of column indices and values; a block
  that is a number has no \<^verbatim>\<open>size\<close>. \<^verbatim>\<open>izip\<close> draws one item from every iterator in
  turn and stops at the first that is exhausted.
\<close>

definition iter_rows :: "expr \<Rightarrow> error + (nat list \<times> real list) list" where
  "iter_rows b =
     (if is_petsc_mat b
      then Inr (map (\<lambda>r. ([0..<length r], r)) (take (nrows (as_petsc b)) (entries (as_petsc b))))
      else Inl AttributeError)"

fun izip_step :: "(error + 'a list) list \<Rightarrow> error + ('a list \<times> (error + 'a list) list) option" where
  "izip_step [] = Inr (Some ([], []))"
| "izip_step (Inl e # its) = Inl e"
| "izip_step (Inr [] # its) = Inr None"
| "izip_step (Inr (x # xs) # its) =
     (case izip_step its of Inl e \<Rightarrow> Inl e | Inr None \<Rightarrow> Inr None
      | Inr (Some (heads, rests)) \<Rightarrow> Inr (Some (x # heads, Inr xs # rests)))"

fun izip_upto :: "nat \<Rightarrow> (error + 'a list) list \<Rightarrow> error + 'a list list" where
  "izip_upto 0 its = Inr []"
| "izip_upto (Suc k) its =
     (case izip_step its of Inl e \<Rightarrow> Inl e | Inr None \<Rightarrow> Inr []
      | Inr (Some (heads, rests)) \<Rightarrow>
          (case izip_upto k rests of Inl e \<Rightarrow> Inl e | Inr items \<Rightarrow> Inr (heads # items)))"

definition izip :: "(error + 'a list) list \<Rightarrow> error + 'a list list" where
  "izip its =
     (case its of [] \<Rightarrow> Inr []
      | Inl e # _ \<Rightarrow> Inl e
      | Inr xs # _ \<Rightarrow> izip_upto (Suc (length xs)) its)"

text \<open>
  One call of \<^verbatim>\<open>setValues\<close>: the values are written at the given columns of the given
  row of the matrix under assembly; the two arrays must have the same length and the
  positions must exist.
\<close>

definition set_values :: "real list list \<Rightarrow> nat \<Rightarrow> nat list \<Rightarrow> real list \<Rightarrow> error + real list list" where
  "set_values mat row indices row_values =
     (if length indices \<noteq> length row_values then Inl ValueError
      else if \<not> row < length mat \<or> \<not> list_all (\<lambda>c. c < length (mat ! row)) indices
      then Inl ValueError
      else Inr (mat[row := fold (\<lambda>(c, v) r. r[c := v]) (zip indices row_values) (mat ! row)]))"

fun stream_rows ::
  "nat list \<Rightarrow> real list list \<times> nat \<Rightarrow> (nat list \<times> real list) list list
     \<Rightarrow> error + real list list \<times> nat" where
  "stream_rows col_offsets (mat, row) [] = Inr (mat, row)"
| "stream_rows col_offsets (mat, row) (indices_values # rest) =
     (let indices = concat (map2 (\<lambda>index offset. map (\<lambda>c. c + offset) index)
                              (map fst indices_values) col_offsets);
          row_values = concat (map snd indices_values)
      in (case set_values mat row indices row_values of Inl e \<Rightarrow> Inl e
          | Inr mat' \<Rightarrow> stream_rows col_offsets (mat', Suc row) rest))"

fun stream_blocks ::
  "nat list \<Rightarrow> real list list \<times> nat \<Rightarrow> expr list list \<Rightarrow> error + real list list \<times> nat" where
  "stream_blocks col_offsets st [] = Inr st"
| "stream_blocks col_offsets st (row_blocks # rest) =
     (case izip (map iter_rows row_blocks) of Inl e \<Rightarrow> Inl e | Inr items \<Rightarrow>
     (case stream_rows col_offsets st items of Inl e \<Rightarrow> Inl e
      | Inr st' \<Rightarrow> stream_blocks col_offsets st' rest))"

definition cumsum :: "nat list \<Rightarrow> nat list" where
  "cumsum xs = map (\<lambda>k. sum_list (take (Suc k) xs)) [0..<length xs]"

definition block_mat_to_petsc :: "block \<Rightarrow> error + expr" where
  "block_mat_to_petsc bmat =
     (case global_get_sizes of Inl e \<Rightarrow> Inl e | Inr get_sizes \<Rightarrow>
     (case get_sizes bmat of Inl e \<Rightarrow> Inl e | Inr (row_sizes, col_sizes) \<Rightarrow>
        (let row_offsets = cumsum (0 # row_sizes);
             col_offsets = cumsum (0 # col_sizes);
             m = last row_offsets; n = last col_offsets
         in (case bmat of
               Block_mat blocks \<Rightarrow>
                 (case stream_blocks col_offsets (replicate m (replicate n 0), 0) blocks of
                    Inl e \<Rightarrow> Inl e
                  | Inr (mat, row) \<Rightarrow> Inr (Mat (Matrix m n mat)))
             | _ \<Rightarrow> Inl AttributeError))))"

section \<open>The list of component functions: \<^verbatim>\<open>ii_Function\<close>\<close>

text \<open>
  An \<^verbatim>\<open>ii_Function\<close> holds the list \<^verbatim>\<open>functions\<close>. Subscripting a Python list accepts
  an index from \<open>- len\<close> up to \<open>len - 1\<close> and raises \<open>IndexError\<close> for any other.
\<close>

datatype 'f ii_Function = II_Function (functions_of: "'f list")

definition list_subscript :: "'a list \<Rightarrow> int \<Rightarrow> error + 'a" where
  "list_subscript xs i =
     (if 0 \<le> i \<and> i < int (length xs) then Inr (xs ! nat i)
      else if - int (length xs) \<le> i \<and> i < 0 then Inr (xs ! nat (int (length xs) + i))
      else Inl IndexError)"

definition ii_len :: "'f ii_Function \<Rightarrow> nat" where
  "ii_len self = length (functions_of self)"

definition ii_getitem :: "'f ii_Function \<Rightarrow> int \<Rightarrow> error + 'f" where
  "ii_getitem self i =
     (if 0 \<le> i \<and> i < int (ii_len self) then list_subscript (functions_of self) i
      else Inl AssertionError)"

definition ii_iter :: "'f ii_Function \<Rightarrow> error + 'f list" where
  "ii_iter self = traverse (\<lambda>i. ii_getitem self (int i)) [0..<ii_len self]"

section \<open>The shapes a row or column knows\<close>

text \<open>
  For stating what \<^verbatim>\<open>bmat_sizes\<close> does: the shapes of the cells of a line (a row or a
  column) whose shape is a pair, in order, and their first and second components. A cell
  is `shaped or scalar' when \<^verbatim>\<open>get_dims\<close> returns for it and returns \<^verbatim>\<open>None\<close> or a pair.
\<close>

definition known_dims :: "vec_arith \<Rightarrow> expr list \<Rightarrow> (nat \<times> nat) list" where
  "known_dims V line =
     concat (map (\<lambda>x. case get_dims V x of Inr (DMat r c) \<Rightarrow> [(r, c)] | _ \<Rightarrow> []) line)"


definition widths :: "vec_arith \<Rightarrow> expr list \<Rightarrow> nat list" where
  "widths V line = map snd (known_dims V line)"

definition shaped_or_scalar :: "vec_arith \<Rightarrow> expr \<Rightarrow> bool" where
  "shaped_or_scalar V x = (case get_dims V x of Inr DNone \<Rightarrow> True | Inr (DMat r c) \<Rightarrow> True | _ \<Rightarrow> False)"

section \<open>The blocks of an assembled matrix\<close>

text \<open>
  For stating what the monolithic matrix holds: the block of \<open>h\<close> rows and \<open>w\<close> columns
  of a matrix that starts at row \<open>r0\<close> and column \<open>c0\<close>.
\<close>

definition sub_block :: "matrix \<Rightarrow> nat \<Rightarrow> nat \<Rightarrow> nat \<Rightarrow> nat \<Rightarrow> real list list" where
  "sub_block M r0 c0 h w = map (\<lambda>row. take w (drop c0 row)) (take h (drop r0 (entries M)))"

text \<open>
  A cell of a fully collapsed grid is a number or a matrix (whose stored rows agree with
  its size). \<open>assembled_block\<close> is the block the specification gives such a cell in a
  block row of height \<open>h\<close> and a block column of width \<open>w\<close>: zeros for the number 0, the
  scaled identity for another number, the matrix itself otherwise. \<open>scalars_on_diagonal\<close>
  says that every number other than 0 sits on the diagonal of the grid, in a cell whose
  row size equals its column size.
\<close>

definition collapsed_cell :: "expr \<Rightarrow> bool" where
  "collapsed_cell x = (is_number x \<or> (is_petsc_mat x \<and> wf_matrix (as_petsc x)))"

definition assembled_block :: "nat \<Rightarrow> nat \<Rightarrow> expr \<Rightarrow> real list list" where
  "assembled_block h w x =
     (if is_number x then
        (if num_val x = 0 then replicate h (replicate w 0)
         else entries (diagonal_matrix h (num_val x)))
      else entries (as_petsc x))"

definition scalars_on_diagonal :: "nat list \<Rightarrow> nat list \<Rightarrow> expr list list \<Rightarrow> bool" where
  "scalars_on_diagonal rs cs g =
     (\<forall>i<length g. \<forall>j<grid_ncols g.
        is_number (g ! i ! j) \<and> num_val (g ! i ! j) \<noteq> 0 \<longrightarrow> i = j \<and> rs ! i = cs ! j)"

text \<open>
  What the loop of \<^verbatim>\<open>convert\<close> leaves in a collapsed cell of a row of height \<open>h\<close>, and what
  \<^verbatim>\<open>block_mat_to_numpy\<close> then hands to the block concatenation.
\<close>

definition cell_result :: "nat \<Rightarrow> expr \<Rightarrow> expr" where
  "cell_result h x =
     (if is_number x then (if num_val x \<noteq> 0 then Mat (diagonal_matrix h (num_val x)) else Num 0)
      else x)"

definition cell_stored :: "nat \<Rightarrow> expr \<Rightarrow> matrix option" where
  "cell_stored h x =
     (if is_number x then (if num_val x \<noteq> 0 then Some (diagonal_matrix h (num_val x)) else None)
      else Some (as_petsc x))"

section \<open>Examples\<close>

definition ex_A :: matrix where
  "ex_A = Matrix 3 2 [[1, 2], [3, 4], [5, 6]]"

definition ex_B :: matrix where
  "ex_B = Matrix 2 4 [[1, 0, 2, 0], [0, 1, 0, 3]]"

definition ex_C :: matrix where
  "ex_C = Matrix 5 4 [[1, 0, 0, 0], [0, 1, 0, 0], [0, 0, 1, 0], [0, 0, 0, 1], [1, 1, 1, 1]]"

definition ex_I3 :: matrix where
  "ex_I3 = Matrix 3 3 [[1, 0, 0], [0, 1, 0], [0, 0, 1]]"

definition ex_D :: matrix where
  "ex_D = Matrix 2 2 [[1, 2], [3, 4]]"

definition ex_C23 :: matrix where
  "ex_C23 = Matrix 2 3 [[1, 2, 3], [4, 5, 6]]"

definition ex_grid :: "expr list list" where
  "ex_grid = [[Num 2, Mat ex_A], [Mat ex_C23, Num 0]]"

text \<open>
  The scenario of the module's own script: the grid \<open>[[A*A, B+B], [2*C - C, D*D*D]]\<close> with
  \<open>A\<close> of size 3 by 3, \<open>B\<close> 3 by 2, \<open>C\<close> 2 by 3 and \<open>D\<close> 2 by 2.
\<close>

definition ex_scenario :: "expr list list" where
  "ex_scenario =
     [[Mul [Mat ex_I3, Mat ex_I3], Add (Mat ex_A) (Mat ex_A)],
      [Sub (Mul [Num 2, Mat ex_C23]) (Mat ex_C23), Mul [Mat ex_D, Mat ex_D, Mat ex_D]]]"

text \<open>A backend that refuses every operation on vector handles, for examples without vectors.\<close>

definition reject_vectors :: vec_arith where
  "reject_vectors op x y = Inl TypeError"

section \<open>Properties of the collapser and of \<^verbatim>\<open>get_dims\<close>\<close>

lemmas kind_defs = is_petsc_mat_def is_number_def is_petsc_vec_def is_block_mul_def
  is_block_add_def is_block_sub_def is_block_transpose_def is_block_sum_def

text \<open>
  C1 (shape propagation). The chain \<open>2 * A * B\<close> with \<open>A\<close> of size 3 by 2 and \<open>B\<close> of size
  2 by 4 collapses, at every depth of four or more, to a matrix of size 3 by 4, while
  \<^verbatim>\<open>get_dims\<close> of the same chain is (3, 2): when the first operand is a number,
  \<^verbatim>\<open>get_dims\<close> returns the shape of the second operand and never looks at the rest.
\<close>

theorem get_dims_collapse_scalar_chain:
  "collapse V (Suc (Suc (Suc (Suc n)))) (Mul [Num 2, Mat ex_A, Mat ex_B])
     = Inr (Mat (Matrix 3 4 [[2, 4, 4, 12], [6, 8, 12, 24], [10, 12, 20, 36]]))
   \<and> get_dims V (Mat (Matrix 3 4 [[2, 4, 4, 12], [6, 8, 12, 24], [10, 12, 20, 36]]))
     = Inr (DMat 3 4)
   \<and> get_dims V (Mul [Num 2, Mat ex_A, Mat ex_B]) = Inr (DMat 3 2)"
  by (simp add: kind_defs ex_A_def ex_B_def reduce_mul_def py_mul_def chain_of_def
      mat_mult_checked_def mat_mult_def mat_scale_def upt_rec)

text \<open>
  C2 (every well-formed node collapses). For a transpose whose operand is a product, the
  reducer does not collapse the operand: it collapses the transpose node itself, which
  dispatches to the same reducer again. At every depth the call ends in
  \<open>RecursionError\<close>; no value is returned.
\<close>

theorem collapse_tr_of_product_never_returns:
  "collapse V n (Tr (Mul c)) = Inl RecursionError
   \<and> collapse_tr V n (Tr (Mul c)) = Inl RecursionError"
  by (induction n) (simp_all add: kind_defs)

text \<open>
  C3 (additive identity). For a matrix \<open>A\<close>, collapsing \<open>Add A 0\<close> rebuilds the same node
  from the collapsed operands and calls the reducer on it again: at every depth the call
  ends in \<open>RecursionError\<close>.
\<close>

theorem collapse_add_zero_never_returns:
  "collapse V n (Add (Mat A) (Num 0)) = Inl RecursionError
   \<and> collapse_add V n (Add (Mat A) (Num 0)) = Inl RecursionError"
proof (induction n)
  case 0
  show ?case by simp
next
  case (Suc n)
  have add: "collapse_add V (Suc n) (Add (Mat A) (Num 0)) = Inl RecursionError"
  proof (cases n)
    case 0
    then show ?thesis by (simp add: kind_defs)
  next
    case (Suc m)
    with Suc.IH show ?thesis by (simp add: kind_defs py_add_def)
  qed
  moreover have "collapse V (Suc n) (Add (Mat A) (Num 0)) = collapse_add V n (Add (Mat A) (Num 0))"
    by (simp add: kind_defs)
  ultimately show ?case using Suc.IH by simp
qed

text \<open>
  C4 (transpose involution). Collapsing the transpose of a transpose never returns: the
  operand of the outer node is not a concrete matrix, so the reducer collapses the outer
  node again, at every depth.
\<close>

theorem collapse_tr_tr_never_returns:
  "collapse V n (Tr (Tr A)) = Inl RecursionError
   \<and> collapse_tr V n (Tr (Tr A)) = Inl RecursionError"
  by (induction n) (simp_all add: kind_defs)

text \<open>
  C5 (shape of a product chain). For the chain \<open>2 * A * C\<close> with \<open>A\<close> of size 3 by 2 and
  \<open>C\<close> of size 5 by 4 the inner dimensions of \<open>A\<close> and \<open>C\<close> differ, yet \<^verbatim>\<open>get_dims\<close>
  raises nothing and returns the shape of \<open>A\<close>.
\<close>

theorem get_dims_scalar_chain_unchecked:
  "get_dims V (Mul [Num 2, Mat ex_A, Mat ex_C]) = Inr (DMat 3 2)
   \<and> get_dims V (Mul [Mat ex_A, Mat ex_C]) = Inl AssertionError"
  by (simp add: ex_A_def ex_C_def)

section \<open>Properties of the block structures\<close>

lemma traverse_all_Inr:
  "(\<And>x. x \<in> set xs \<Longrightarrow> f x = Inr (g x)) \<Longrightarrow> traverse f xs = Inr (map g xs)"
  by (induction xs) simp_all

lemma remdups_singleton: "remdups xs = [s] \<longleftrightarrow> set xs = {s}"
proof
  assume "remdups xs = [s]"
  then have "set (remdups xs) = {s}" by simp
  then show "set xs = {s}" by simp
next
  assume a: "set xs = {s}"
  then have "length (remdups xs) = 1" by (simp add: length_remdups_card_conv)
  then obtain y where y: "remdups xs = [y]" by (cases "remdups xs") auto
  then have "set (remdups xs) = {y}" by simp
  with a have "y = s" by simp
  with y show "remdups xs = [s]" by simp
qed

lemma line_dims:
  assumes "\<And>x. x \<in> set line \<Longrightarrow> shaped_or_scalar V x"
  shows "\<exists>ds. traverse (get_dims V) line = Inr ds
     \<and> traverse (dim_index k) (filter (\<lambda>d. d \<noteq> DNone) ds)
       = Inr (map (\<lambda>p. if k = 0 then fst p else snd p) (known_dims V line))"
  using assms
proof (induction line)
  case Nil
  then show ?case by (simp add: known_dims_def)
next
  case (Cons x line)
  from Cons.IH Cons.prems obtain ds where ds: "traverse (get_dims V) line = Inr ds"
    "traverse (dim_index k) (filter (\<lambda>d. d \<noteq> DNone) ds)
       = Inr (map (\<lambda>p. if k = 0 then fst p else snd p) (known_dims V line))"
    by auto
  have kd: "known_dims V (x # line)
      = (case get_dims V x of Inr (DMat r c) \<Rightarrow> [(r, c)] | _ \<Rightarrow> []) @ known_dims V line"
    by (simp add: known_dims_def)
  from Cons.prems [of x] consider "get_dims V x = Inr DNone"
    | r c where "get_dims V x = Inr (DMat r c)"
    by (auto simp: shaped_or_scalar_def split: sum.splits dims.splits)
  then show ?case
  proof cases
    case 1
    with ds kd show ?thesis by simp
  next
    case 2
    with ds kd show ?thesis by (cases "k = 0") simp_all
  qed
qed

lemma line_size_shaped:
  assumes "\<And>x. x \<in> set line \<Longrightarrow> shaped_or_scalar V x"
  shows "line_size V k line
     = (case remdups (map (\<lambda>p. if k = 0 then fst p else snd p) (known_dims V line)) of
          [s] \<Rightarrow> Inr s | _ \<Rightarrow> Inl AssertionError)"
proof -
  from line_dims [OF assms, of line k] obtain ds where
    "traverse (get_dims V) line = Inr ds"
    "traverse (dim_index k) (filter (\<lambda>d. d \<noteq> DNone) ds)
       = Inr (map (\<lambda>p. if k = 0 then fst p else snd p) (known_dims V line))"
    by blast
  then show ?thesis by (simp add: line_size_def)
qed









text \<open>
  C8 (sizes of a vector block structure). For every \<^verbatim>\<open>block_vec\<close>, whatever its
  components, \<^verbatim>\<open>bmat_sizes\<close> raises \<open>AttributeError\<close>: it reads the attribute \<^verbatim>\<open>blocks\<close>
  of the class instead of the argument's, so no vector length is ever returned.
\<close>

theorem bmat_sizes_block_vec_fails:
  "bmat_sizes V (Block_vec bs) = Inl AttributeError"
  by (simp add: bmat_sizes_def class_block_vec_blocks_def)

text \<open>
  C9 (the two assembly paths agree). The row-streamed path \<^verbatim>\<open>block_mat_to_petsc\<close> raises
  \<open>NameError\<close> on every argument, before it looks at a block. \<^verbatim>\<open>convert\<close> never calls
  it: with the algorithm \<^verbatim>\<open>'foo'\<close> it takes the same path as with \<^verbatim>\<open>'numpy'\<close>, and on
  the scenario grid that path returns a matrix of size 5 by 5 at every depth of four or
  more.
\<close>

theorem block_mat_to_petsc_fails:
  "block_mat_to_petsc bmat = Inl NameError
   \<and> convert V n bmat (Some ''foo'') = convert V n bmat (Some ''numpy'')
   \<and> convert V (Suc (Suc (Suc (Suc n)))) (Block_mat ex_scenario) (Some ''foo'')
       = Inr (Plain (Mat (Matrix 5 5
           [[1, 0, 0, 2, 4], [0, 1, 0, 6, 8], [0, 0, 1, 10, 12],
            [1, 2, 3, 37, 54], [4, 5, 6, 81, 118]])))"
proof -
  have f: "falsy (Some ''foo'') = False" "falsy (Some ''numpy'') = False"
    by (simp_all add: falsy_def)
  have same: "convert V n bmat (Some ''foo'') = convert V n bmat (Some ''numpy'')"
    unfolding convert_def f by (rule refl)
  have scenario: "convert V (Suc (Suc (Suc (Suc n)))) (Block_mat ex_scenario) (Some ''foo'')
       = Inr (Plain (Mat (Matrix 5 5
           [[1, 0, 0, 2, 4], [0, 1, 0, 6, 8], [0, 0, 1, 10, 12],
            [1, 2, 3, 37, 54], [4, 5, 6, 81, 118]])))"
    by code_simp
  have "block_mat_to_petsc bmat = Inl NameError"
    by (simp add: block_mat_to_petsc_def global_get_sizes_def)
  with same scenario show ?thesis by (intro conjI)
qed

section \<open>Properties of the monolithic assembly\<close>

lemma concat_segment:
  "i < length xss \<Longrightarrow>
     take (length (xss ! i)) (drop (sum_list (map length (take i xss))) (concat xss)) = xss ! i"
proof (induction xss arbitrary: i)
  case Nil
  then show ?case by simp
next
  case (Cons xs xss)
  show ?case
  proof (cases i)
    case 0
    then show ?thesis by simp
  next
    case (Suc k)
    with Cons.prems have "k < length xss" by simp
    from Cons.IH [OF this] Suc show ?thesis by simp
  qed
qed

lemma concat_segment_sizes:
  assumes "i < length xss" and "map length xss = ls"
  shows "take (ls ! i) (drop (sum_list (take i ls)) (concat xss)) = xss ! i"
proof -
  from assms have "ls ! i = length (xss ! i)" by auto
  moreover have "take i ls = map length (take i xss)"
    unfolding assms(2) [symmetric] by (simp add: take_map)
  ultimately show ?thesis using concat_segment [OF assms(1)] by simp
qed

lemma block_length_known:
  "0 < k \<Longrightarrow> (\<And>x. x \<in> set ns \<Longrightarrow> x = k) \<Longrightarrow> block_length k ns = Inr k"
  by (induction ns) auto

lemma block_length_const:
  assumes "ns \<noteq> []" and "0 < k" and "\<And>x. x \<in> set ns \<Longrightarrow> x = k"
  shows "block_length 0 ns = Inr k"
proof (cases ns)
  case Nil
  with assms(1) show ?thesis by simp
next
  case (Cons n ns')
  with assms(3) have "n = k" by simp
  moreover have "block_length k ns' = Inr k"
    by (rule block_length_known [OF assms(2)]) (use assms(3) Cons in simp)
  ultimately show ?thesis using Cons by simp
qed

lemma traverse_Inr_nth:
  "traverse f xs = Inr ys \<Longrightarrow>
     length ys = length xs \<and> (\<forall>i<length xs. f (xs ! i) = Inr (ys ! i))"
proof (induction xs arbitrary: ys)
  case Nil
  then show ?case by simp
next
  case (Cons x xs)
  from Cons.prems obtain y ys' where y: "f x = Inr y" and r: "traverse f xs = Inr ys'"
    and ys: "ys = y # ys'"
    by (auto split: sum.splits)
  from Cons.IH [OF r] y ys show ?case
    by (auto simp: nth_Cons split: nat.splits)
qed

lemma map2_index:
  assumes "length xs = length ys"
  shows "map2 f xs ys = map (\<lambda>i. f (xs ! i) (ys ! i)) [0..<length ys]"
  by (rule nth_equalityI) (use assms in simp_all)

lemma stored_set: "set (stored line) = {A. Some A \<in> set line}"
  by (induction line) (auto simp: stored_def split: option.splits)


lemma traverse_nth_Inr:
  "length ys = length xs \<Longrightarrow> (\<And>i. i < length xs \<Longrightarrow> f (xs ! i) = Inr (ys ! i))
     \<Longrightarrow> traverse f xs = Inr ys"
proof (induction xs arbitrary: ys)
  case Nil
  then show ?case by simp
next
  case (Cons x xs)
  from Cons.prems(1) obtain y ys' where ys: "ys = y # ys'" by (cases ys) auto
  from Cons.prems(2) [of 0] ys have y: "f x = Inr y" by simp
  have "traverse f xs = Inr ys'"
  proof (rule Cons.IH)
    show "length ys' = length xs" using Cons.prems(1) ys by simp
  next
    fix i assume "i < length xs"
    with Cons.prems(2) [of "Suc i"] ys show "f (xs ! i) = Inr (ys' ! i)" by simp
  qed
  with y ys show ?case by simp
qed

lemma rectangular_row: "rectangular g \<Longrightarrow> i < length g \<Longrightarrow> length (g ! i) = grid_ncols g"
  by (simp add: rectangular_def list_all_length)

lemma grid_T_nth: "j < grid_ncols g \<Longrightarrow> grid_T g ! j = map (\<lambda>row. row ! j) g"
  by (simp add: grid_T_def)

lemma length_grid_T: "length (grid_T g) = grid_ncols g"
  by (simp add: grid_T_def)

lemma length_block_row: "length (block_row h ws line) = h"
  by (simp add: block_row_def)

lemma numpy_block_mat_blocks:
  fixes cells :: "matrix option list list"
  assumes ne: "cells \<noteq> []" and rect: "rectangular cells"
    and lr: "length rs = length cells" and lc: "length cs = grid_ncols cells"
    and fits: "\<And>i j A. i < length cells \<Longrightarrow> j < grid_ncols cells \<Longrightarrow> cells ! i ! j = Some A
          \<Longrightarrow> wf_matrix A \<and> nrows A = rs ! i \<and> ncols A = cs ! j"
    and rowsome: "\<And>i. i < length cells \<Longrightarrow> \<exists>j<grid_ncols cells. cells ! i ! j \<noteq> None"
    and colsome: "\<And>j. j < grid_ncols cells \<Longrightarrow> \<exists>i<length cells. cells ! i ! j \<noteq> None"
    and posr: "\<And>i. i < length cells \<Longrightarrow> 0 < rs ! i"
    and posc: "\<And>j. j < grid_ncols cells \<Longrightarrow> 0 < cs ! j"
    and nc: "0 < grid_ncols cells"
  shows "\<exists>M. numpy_block_mat cells = Inr M \<and> nrows M = sum_list rs \<and> ncols M = sum_list cs
     \<and> (\<forall>i<length cells. \<forall>j<grid_ncols cells.
          sub_block M (sum_list (take i rs)) (sum_list (take j cs)) (rs ! i) (cs ! j)
            = (case cells ! i ! j of None \<Rightarrow> replicate (rs ! i) (replicate (cs ! j) 0)
               | Some A \<Rightarrow> entries A))"
proof -
  let ?nr = "length cells" and ?nc = "grid_ncols cells"
  have rowlen: "length (cells ! i) = ?nc" if "i < ?nr" for i
    using rectangular_row [OF rect that] .
  have R: "traverse (\<lambda>line. block_length 0 (map nrows (stored line))) cells = Inr rs"
  proof (rule traverse_nth_Inr [OF lr])
    fix i assume i: "i < ?nr"
    from rowsome [OF i] obtain j A where j: "j < ?nc" "cells ! i ! j = Some A" by auto
    with rowlen [OF i] have "Some A \<in> set (cells ! i)" by (metis nth_mem)
    then have n: "map nrows (stored (cells ! i)) \<noteq> []"
      using stored_set [of "cells ! i"] by auto
    have "x = rs ! i" if "x \<in> set (map nrows (stored (cells ! i)))" for x
    proof -
      from that obtain B where B: "Some B \<in> set (cells ! i)" "x = nrows B"
        by (auto simp: stored_set)
      then obtain k where "k < length (cells ! i)" "cells ! i ! k = Some B"
        by (auto simp: in_set_conv_nth)
      with rowlen [OF i] fits [OF i, of k B] B(2) show ?thesis by simp
    qed
    with n posr [OF i]
    show "block_length 0 (map nrows (stored (cells ! i))) = Inr (rs ! i)"
      by (intro block_length_const) auto
  qed
  have C: "traverse (\<lambda>line. block_length 0 (map ncols (stored line))) (grid_T cells) = Inr cs"
  proof (rule traverse_nth_Inr)
    show "length cs = length (grid_T cells)" using lc by (simp add: length_grid_T)
  next
    fix j assume "j < length (grid_T cells)"
    then have j: "j < ?nc" by (simp add: length_grid_T)
    have col: "grid_T cells ! j = map (\<lambda>row. row ! j) cells" by (rule grid_T_nth [OF j])
    from colsome [OF j] obtain i A where i: "i < ?nr" "cells ! i ! j = Some A" by auto
    from i(1) have "cells ! i \<in> set cells" by simp
    then have "cells ! i ! j \<in> (\<lambda>row. row ! j) ` set cells" by (rule imageI)
    with i(2) have "Some A \<in> set (grid_T cells ! j)"
      unfolding col by simp
    then have n: "map ncols (stored (grid_T cells ! j)) \<noteq> []"
      using stored_set [of "grid_T cells ! j"] by auto
    have "x = cs ! j" if "x \<in> set (map ncols (stored (grid_T cells ! j)))" for x
    proof -
      from that obtain B where B: "Some B \<in> set (grid_T cells ! j)" "x = ncols B"
        by (auto simp: stored_set)
      then obtain k where "k < ?nr" "cells ! k ! j = Some B"
        unfolding col by (auto simp: in_set_conv_nth)
      with fits [OF _ j, of k B] B(2) show ?thesis by simp
    qed
    with n posc [OF j]
    show "block_length 0 (map ncols (stored (grid_T cells ! j))) = Inr (cs ! j)"
      by (intro block_length_const) auto
  qed
  let ?BR = "map2 (\<lambda>h line. block_row h cs line) rs cells"
  let ?M = "Matrix (sum_list rs) (sum_list cs) (concat ?BR)"
  from ne lr have rs_ne: "rs \<noteq> []" by auto
  from nc lc have cs_ne: "cs \<noteq> []" by auto
  have res: "numpy_block_mat cells = Inr ?M"
    by (simp add: numpy_block_mat_def R C rs_ne cs_ne)
  have BR: "?BR = map (\<lambda>i. block_row (rs ! i) cs (cells ! i)) [0..<?nr]"
    by (rule map2_index [OF lr])
  have BRlen: "map length ?BR = rs"
    by (rule nth_equalityI) (simp_all add: BR lr length_block_row)
  have blk: "sub_block ?M (sum_list (take i rs)) (sum_list (take j cs)) (rs ! i) (cs ! j)
            = (case cells ! i ! j of None \<Rightarrow> replicate (rs ! i) (replicate (cs ! j) 0)
               | Some A \<Rightarrow> entries A)"
    if i: "i < ?nr" and j: "j < ?nc" for i j
  proof -
    let ?seg = "\<lambda>r w b. case b of None \<Rightarrow> replicate w (0::real) | Some A \<Rightarrow> entries A ! r"
    have iBR: "i < length ?BR" using i lr by simp
    have "take (rs ! i) (drop (sum_list (take i rs)) (concat ?BR)) = ?BR ! i"
      by (rule concat_segment_sizes [OF iBR BRlen])
    also have "?BR ! i = block_row (rs ! i) cs (cells ! i)"
      using i by (simp add: BR)
    finally have rows_i: "take (rs ! i) (drop (sum_list (take i rs)) (concat ?BR))
        = block_row (rs ! i) cs (cells ! i)" .
    have lci: "length cs = length (cells ! i)" using lc rowlen [OF i] by simp
    have seg_j: "take (cs ! j) (drop (sum_list (take j cs))
                   (concat (map2 (?seg r) cs (cells ! i)))) = ?seg r (cs ! j) (cells ! i ! j)"
      if r: "r < rs ! i" for r
    proof -
      let ?S = "map2 (?seg r) cs (cells ! i)"
      have S: "?S = map (\<lambda>k. ?seg r (cs ! k) (cells ! i ! k)) [0..<length (cells ! i)]"
        by (rule map2_index [OF lci])
      have len: "length (?seg r (cs ! k) (cells ! i ! k)) = cs ! k" if k: "k < ?nc" for k
      proof (cases "cells ! i ! k")
        case None
        then show ?thesis by simp
      next
        case (Some A)
        from fits [OF i k Some] have w: "wf_matrix A" "nrows A = rs ! i" "ncols A = cs ! k"
          by simp_all
        with r have "r < length (entries A)" by (simp add: wf_matrix_def)
        with w(1) have "length (entries A ! r) = ncols A"
          by (simp add: wf_matrix_def list_all_length)
        with Some w(3) show ?thesis by simp
      qed
      have Slen: "map length ?S = cs"
        by (rule nth_equalityI) (simp_all add: S lci [symmetric] len lc rowlen [OF i])
      have jS: "j < length ?S" using j lci lc by simp
      have "take (cs ! j) (drop (sum_list (take j cs)) (concat ?S)) = ?S ! j"
        by (rule concat_segment_sizes [OF jS Slen])
      also have "?S ! j = ?seg r (cs ! j) (cells ! i ! j)"
        using j rowlen [OF i] by (simp add: S split: option.split)
      finally show ?thesis .
    qed
    have "sub_block ?M (sum_list (take i rs)) (sum_list (take j cs)) (rs ! i) (cs ! j)
        = map (\<lambda>row. take (cs ! j) (drop (sum_list (take j cs)) row))
            (block_row (rs ! i) cs (cells ! i))"
      by (simp add: sub_block_def rows_i)
    also have "\<dots> = map (\<lambda>r. ?seg r (cs ! j) (cells ! i ! j)) [0..<rs ! i]"
      by (simp add: block_row_def seg_j)
    also have "\<dots> = (case cells ! i ! j of None \<Rightarrow> replicate (rs ! i) (replicate (cs ! j) 0)
               | Some A \<Rightarrow> entries A)"
    proof (cases "cells ! i ! j")
      case None
      then show ?thesis by (simp add: map_replicate_const)
    next
      case (Some A)
      from fits [OF i j Some] have "length (entries A) = rs ! i"
        by (simp add: wf_matrix_def)
      then have "map (\<lambda>r. entries A ! r) [0..<rs ! i] = entries A"
        by (metis map_nth)
      with Some show ?thesis by simp
    qed
    finally show ?thesis .
  qed
  from res blk show ?thesis by simp
qed


lemma collapsed_get_dims:
  "collapsed_cell x \<Longrightarrow>
     get_dims V x = (if is_number x then Inr DNone
                     else Inr (DMat (nrows (as_petsc x)) (ncols (as_petsc x))))"
  by (cases x) (simp_all add: collapsed_cell_def kind_defs)

lemma collapsed_shaped: "collapsed_cell x \<Longrightarrow> shaped_or_scalar V x"
  by (simp add: shaped_or_scalar_def collapsed_get_dims)

lemma collapsed_known_dims:
  assumes "\<And>x. x \<in> set line \<Longrightarrow> collapsed_cell x"
  shows "set (known_dims V line)
     = (\<lambda>x. (nrows (as_petsc x), ncols (as_petsc x))) ` {x \<in> set line. is_petsc_mat x}"
  using assms
proof (induction line)
  case Nil
  then show ?case by (simp add: known_dims_def)
next
  case (Cons x line)
  have kd: "known_dims V (x # line)
      = (case get_dims V x of Inr (DMat r c) \<Rightarrow> [(r, c)] | _ \<Rightarrow> []) @ known_dims V line"
    by (simp add: known_dims_def)
  from Cons.prems have cx: "collapsed_cell x" by simp
  from Cons.IH Cons.prems have IH: "set (known_dims V line)
     = (\<lambda>x. (nrows (as_petsc x), ncols (as_petsc x))) ` {x \<in> set line. is_petsc_mat x}"
    by simp
  show ?case
  proof (cases "is_number x")
    case True
    then have "\<not> is_petsc_mat x" by (cases x) (simp_all add: kind_defs)
    with True kd IH cx show ?thesis by (auto simp: collapsed_get_dims)
  next
    case False
    with cx have "is_petsc_mat x" by (simp add: collapsed_cell_def)
    with False kd IH cx show ?thesis by (auto simp: collapsed_get_dims)
  qed
qed

lemma collapsed_line_size:
  assumes c: "\<And>x. x \<in> set line \<Longrightarrow> collapsed_cell x"
    and s: "line_size V k line = Inr s"
  shows "(\<exists>x\<in>set line. is_petsc_mat x)
     \<and> (\<forall>x\<in>set line. is_petsc_mat x \<longrightarrow>
          (if k = 0 then nrows (as_petsc x) else ncols (as_petsc x)) = s)"
proof -
  let ?pick = "\<lambda>p::nat \<times> nat. if k = 0 then fst p else snd p"
  have sh: "\<And>x. x \<in> set line \<Longrightarrow> shaped_or_scalar V x"
    using c collapsed_shaped by blast
  from s have "remdups (map ?pick (known_dims V line)) = [s]"
    by (simp add: line_size_shaped [OF sh] split: list.splits)
  then have "set (map ?pick (known_dims V line)) = {s}"
    by (simp only: remdups_singleton)
  then have eq: "?pick ` (\<lambda>x. (nrows (as_petsc x), ncols (as_petsc x)))
        ` {x \<in> set line. is_petsc_mat x} = {s}"
    by (simp add: collapsed_known_dims [OF c])
  then have "{x \<in> set line. is_petsc_mat x} \<noteq> {}" by auto
  then have ex: "\<exists>x\<in>set line. is_petsc_mat x" by auto
  have "(if k = 0 then nrows (as_petsc x) else ncols (as_petsc x)) = s"
    if "x \<in> set line" "is_petsc_mat x" for x
  proof -
    from that have "?pick (nrows (as_petsc x), ncols (as_petsc x))
        \<in> ?pick ` (\<lambda>x. (nrows (as_petsc x), ncols (as_petsc x)))
            ` {x \<in> set line. is_petsc_mat x}"
      by blast
    with eq show ?thesis by auto
  qed
  with ex show ?thesis by blast
qed

lemma wf_diagonal_matrix:
  "wf_matrix (diagonal_matrix n s) \<and> nrows (diagonal_matrix n s) = n
     \<and> ncols (diagonal_matrix n s) = n"
  by (simp add: wf_matrix_def diagonal_matrix_def list_all_length)


lemma convert_cell_collapsed:
  assumes "collapsed_cell x" and "is_number x \<and> num_val x \<noteq> 0 \<longrightarrow> rs ! i = cs ! j"
  shows "convert_cell V (Suc n) rs cs i j x = Inr (cell_result (rs ! i) x)"
  using assms
  by (cases x) (simp_all add: convert_cell_def cell_result_def collapsed_cell_def kind_defs)

lemma cell_to_numpy_result:
  "collapsed_cell x \<Longrightarrow> cell_to_numpy (cell_result h x) = Inr (cell_stored h x)"
  by (cases x) (simp_all add: cell_to_numpy_def cell_result_def cell_stored_def
      collapsed_cell_def kind_defs)

lemma cell_result_kind:
  "collapsed_cell x \<Longrightarrow> is_petsc_mat (cell_result h x) \<or> is_number (cell_result h x)"
  by (cases x) (simp_all add: cell_result_def collapsed_cell_def kind_defs)

lemma grid_ncols_table:
  "0 < m \<Longrightarrow> grid_ncols (map (\<lambda>i. map (f i) [0..<k]) [0..<m]) = k"
  by (simp add: grid_ncols_def upt_conv_Cons)

lemma traverse_enumerate:
  assumes "length ys = length xs"
    and "\<And>i. i < length xs \<Longrightarrow> f i (xs ! i) = Inr (ys ! i)"
  shows "traverse (\<lambda>(i, x). f i x) (enumerate 0 xs) = Inr ys"
  by (rule traverse_nth_Inr) (use assms in \<open>simp_all add: nth_enumerate_eq\<close>)


text \<open>
  A grid made of numbers only gives \<^verbatim>\<open>bmat_sizes\<close> nothing to infer a size from: its
  first row already fails the assertion, and with it \<^verbatim>\<open>convert\<close>, at every depth and for
  every algorithm.
\<close>

lemma line_size_all_numbers:
  assumes "list_all is_number line"
  shows "line_size V k line = Inl AssertionError"
proof -
  have "traverse (get_dims V) line = Inr (map (\<lambda>x. DNone) line)"
  proof (rule traverse_all_Inr)
    fix x assume "x \<in> set line"
    with assms have "is_number x" by (simp add: list_all_iff)
    then show "get_dims V x = Inr DNone" by (cases x) (simp_all add: kind_defs)
  qed
  then show ?thesis by (simp add: line_size_def)
qed

lemma convert_all_scalar_grid:
  assumes "g \<noteq> []" and "list_all (list_all is_number) g"
  shows "convert V n (Block_mat g) algorithm = Inl AssertionError"
proof -
  from assms(1) obtain row rest where g: "g = row # rest" by (cases g) auto
  with assms(2) have "line_size V 0 row = Inl AssertionError"
    by (simp add: line_size_all_numbers)
  with g have "bmat_sizes V (Block_mat g) = Inl AssertionError"
    by (simp add: bmat_sizes_def)
  then show ?thesis by (simp add: convert_def)
qed

text \<open>
  C6 (scalar cells in monolithic assembly), as amended. Take a non-empty rectangular grid
  of collapsed cells for which \<^verbatim>\<open>bmat_sizes\<close> returns the sizes \<open>rs\<close> and \<open>cs\<close> (so every
  block row and every block column holds a matrix), all of them positive, and in which
  every number other than 0 sits on the diagonal in a cell whose row size equals its
  column size. Then \<^verbatim>\<open>convert\<close>, at any depth of one or more and with any algorithm that
  is not falsy, returns a matrix of size \<open>sum rs\<close> by \<open>sum cs\<close>, and its block at the
  offsets of cell \<open>(i, j)\<close> is all zero for the number 0, the number times the identity
  for a number other than 0 on the diagonal, and the cell's matrix otherwise.
\<close>

theorem convert_scalar_blocks:
  assumes depth: "0 < n" and alg: "\<not> falsy algorithm"
    and ne: "g \<noteq> []" and rect: "rectangular g"
    and cells: "list_all (list_all collapsed_cell) g"
    and sizes: "bmat_sizes V (Block_mat g) = Inr (Mat_sizes rs cs)"
    and posr: "list_all (\<lambda>h. 0 < h) rs" and posc: "list_all (\<lambda>w. 0 < w) cs"
    and scal: "scalars_on_diagonal rs cs g"
  shows "\<exists>M. convert V n (Block_mat g) algorithm = Inr (Plain (Mat M))
     \<and> nrows M = sum_list rs \<and> ncols M = sum_list cs
     \<and> (\<forall>i<length g. \<forall>j<grid_ncols g.
          sub_block M (sum_list (take i rs)) (sum_list (take j cs)) (rs ! i) (cs ! j)
            = assembled_block (rs ! i) (cs ! j) (g ! i ! j))"
proof -
  let ?nr = "length g" and ?nc = "grid_ncols g"
  from depth obtain m where n: "n = Suc m" by (cases n) auto
  have rowlen: "length (g ! i) = ?nc" if "i < ?nr" for i
    using rectangular_row [OF rect that] .
  have cell: "collapsed_cell (g ! i ! j)" if "i < ?nr" "j < ?nc" for i j
    using cells that rowlen [OF that(1)] by (simp add: list_all_length)
  have row_cells: "collapsed_cell x" if "i < ?nr" "x \<in> set (g ! i)" for i x
  proof -
    from that(1) have "g ! i \<in> set g" by simp
    with cells that(2) show ?thesis by (auto simp: list_all_iff)
  qed
  have col_cells: "collapsed_cell x" if "j < ?nc" "x \<in> set (grid_T g ! j)" for j x
  proof -
    from that obtain i where "i < ?nr" "x = g ! i ! j"
      by (auto simp: grid_T_nth in_set_conv_nth)
    with cell that(1) show ?thesis by simp
  qed
  from sizes have R: "traverse (line_size V 0) g = Inr rs"
    and C: "traverse (line_size V 1) (grid_T g) = Inr cs"
    by (auto simp: bmat_sizes_def split: sum.splits)
  from traverse_Inr_nth [OF R] have lr: "length rs = ?nr"
    and rsz: "\<And>i. i < ?nr \<Longrightarrow> line_size V 0 (g ! i) = Inr (rs ! i)" by simp_all
  from traverse_Inr_nth [OF C] have lc: "length cs = ?nc"
    and csz: "\<And>j. j < ?nc \<Longrightarrow> line_size V 1 (grid_T g ! j) = Inr (cs ! j)"
    by (simp_all add: length_grid_T)
  have row_facts: "(\<exists>x\<in>set (g ! i). is_petsc_mat x)
      \<and> (\<forall>x\<in>set (g ! i). is_petsc_mat x \<longrightarrow> nrows (as_petsc x) = rs ! i)"
    if i: "i < ?nr" for i
    using collapsed_line_size [of "g ! i" V 0 "rs ! i"] row_cells [OF i] rsz [OF i] by simp
  have col_facts: "(\<exists>x\<in>set (grid_T g ! j). is_petsc_mat x)
      \<and> (\<forall>x\<in>set (grid_T g ! j). is_petsc_mat x \<longrightarrow> ncols (as_petsc x) = cs ! j)"
    if j: "j < ?nc" for j
    using collapsed_line_size [of "grid_T g ! j" V 1 "cs ! j"] col_cells [OF j] csz [OF j]
    by simp
  have in_row: "g ! i ! j \<in> set (g ! i)" if "i < ?nr" "j < ?nc" for i j
    using that rowlen [OF that(1)] by simp
  have in_col: "g ! i ! j \<in> set (grid_T g ! j)" if "i < ?nr" "j < ?nc" for i j
    using that by (simp add: grid_T_nth)
  have mat_dims: "nrows (as_petsc (g ! i ! j)) = rs ! i \<and> ncols (as_petsc (g ! i ! j)) = cs ! j"
    if "i < ?nr" "j < ?nc" "is_petsc_mat (g ! i ! j)" for i j
    using row_facts [OF that(1)] col_facts [OF that(2)] in_row [OF that(1,2)]
      in_col [OF that(1,2)] that(3) by blast
  have row_mat: "\<exists>j<?nc. is_petsc_mat (g ! i ! j)" if i: "i < ?nr" for i
  proof -
    from row_facts [OF i] obtain x where "x \<in> set (g ! i)" "is_petsc_mat x" by blast
    then show ?thesis using rowlen [OF i] by (auto simp: in_set_conv_nth)
  qed
  have col_mat: "\<exists>i<?nr. is_petsc_mat (g ! i ! j)" if j: "j < ?nc" for j
  proof -
    from col_facts [OF j] obtain x where "x \<in> set (grid_T g ! j)" "is_petsc_mat x" by blast
    then show ?thesis using j by (auto simp: grid_T_nth in_set_conv_nth)
  qed
  from ne have nr_pos: "0 < ?nr" by simp
  from row_mat [OF nr_pos] have nc_pos: "0 < ?nc" by auto
  have diag: "rs ! i = cs ! j"
    if "i < ?nr" "j < ?nc" "is_number (g ! i ! j)" "num_val (g ! i ! j) \<noteq> 0" for i j
    using scal that by (simp add: scalars_on_diagonal_def)
  let ?blocks = "map (\<lambda>i. map (\<lambda>j. cell_result (rs ! i) (g ! i ! j)) [0..<?nc]) [0..<?nr]"
  let ?cells = "map (\<lambda>i. map (\<lambda>j. cell_stored (rs ! i) (g ! i ! j)) [0..<?nc]) [0..<?nr]"
  have T1: "traverse (\<lambda>(i, row).
                traverse (\<lambda>(j, block). convert_cell V n rs cs i j block) (enumerate 0 row))
              (enumerate 0 g) = Inr ?blocks"
  proof (rule traverse_enumerate)
    show "length ?blocks = ?nr" by simp
  next
    fix i assume i: "i < ?nr"
    have "traverse (\<lambda>(j, block). convert_cell V n rs cs i j block) (enumerate 0 (g ! i))
        = Inr (map (\<lambda>j. cell_result (rs ! i) (g ! i ! j)) [0..<?nc])"
    proof (rule traverse_enumerate)
      show "length (map (\<lambda>j. cell_result (rs ! i) (g ! i ! j)) [0..<?nc]) = length (g ! i)"
        using rowlen [OF i] by simp
    next
      fix j assume "j < length (g ! i)"
      with rowlen [OF i] have j: "j < ?nc" by simp
      have "convert_cell V n rs cs i j (g ! i ! j) = Inr (cell_result (rs ! i) (g ! i ! j))"
        unfolding n
        by (rule convert_cell_collapsed [OF cell [OF i j]]) (use diag [OF i j] in blast)
      with j show "convert_cell V n rs cs i j (g ! i ! j)
          = Inr (map (\<lambda>j. cell_result (rs ! i) (g ! i ! j)) [0..<?nc] ! j)"
        by simp
    qed
    with i show "traverse (\<lambda>(j, block). convert_cell V n rs cs i j block) (enumerate 0 (g ! i))
        = Inr (?blocks ! i)"
      by simp
  qed
  have T2: "list_all (list_all (\<lambda>b. is_petsc_mat b \<or> is_number b)) ?blocks"
    using cell cell_result_kind by (simp add: list_all_length)
  have T3: "traverse (traverse cell_to_numpy) ?blocks = Inr ?cells"
  proof (rule traverse_nth_Inr)
    show "length ?cells = length ?blocks" by simp
  next
    fix i assume "i < length ?blocks"
    then have i: "i < ?nr" by simp
    have "traverse cell_to_numpy (map (\<lambda>j. cell_result (rs ! i) (g ! i ! j)) [0..<?nc])
        = Inr (map (\<lambda>j. cell_stored (rs ! i) (g ! i ! j)) [0..<?nc])"
      by (rule traverse_nth_Inr) (use cell [OF i] in \<open>simp_all add: cell_to_numpy_result\<close>)
    with i show "traverse cell_to_numpy (?blocks ! i) = Inr (?cells ! i)" by simp
  qed
  have gc: "grid_ncols ?cells = ?nc" by (rule grid_ncols_table [OF nr_pos])
  have lcells: "length ?cells = ?nr" by simp
  have nth_cells: "?cells ! i ! j = cell_stored (rs ! i) (g ! i ! j)"
    if "i < ?nr" "j < ?nc" for i j
    using that by simp
  have "\<exists>M. numpy_block_mat ?cells = Inr M \<and> nrows M = sum_list rs \<and> ncols M = sum_list cs
     \<and> (\<forall>i<length ?cells. \<forall>j<grid_ncols ?cells.
          sub_block M (sum_list (take i rs)) (sum_list (take j cs)) (rs ! i) (cs ! j)
            = (case ?cells ! i ! j of None \<Rightarrow> replicate (rs ! i) (replicate (cs ! j) 0)
               | Some A \<Rightarrow> entries A))"
  proof (rule numpy_block_mat_blocks)
    show "?cells \<noteq> []" using nr_pos by simp
    show "rectangular ?cells" unfolding rectangular_def gc by (simp add: list_all_length)
    show "length rs = length ?cells" using lr by simp
    show "length cs = grid_ncols ?cells" using lc gc by simp
    show "0 < grid_ncols ?cells" using nc_pos gc by simp
  next
    fix i assume "i < length ?cells"
    then have i: "i < ?nr" by simp
    from posr lr i show "0 < rs ! i" by (simp add: list_all_length)
    from row_mat [OF i] obtain j where j: "j < ?nc" "is_petsc_mat (g ! i ! j)" by blast
    then have "\<not> is_number (g ! i ! j)" by (cases "g ! i ! j") (simp_all add: kind_defs)
    with j i have "?cells ! i ! j \<noteq> None" by (simp add: cell_stored_def)
    with j(1) show "\<exists>j<grid_ncols ?cells. ?cells ! i ! j \<noteq> None" unfolding gc by blast
  next
    fix j assume "j < grid_ncols ?cells"
    then have j: "j < ?nc" unfolding gc .
    from posc lc j show "0 < cs ! j" by (simp add: list_all_length)
    from col_mat [OF j] obtain i where i: "i < ?nr" "is_petsc_mat (g ! i ! j)" by blast
    then have "\<not> is_number (g ! i ! j)" by (cases "g ! i ! j") (simp_all add: kind_defs)
    with j i have "?cells ! i ! j \<noteq> None" by (simp add: cell_stored_def)
    with i(1) show "\<exists>i<length ?cells. ?cells ! i ! j \<noteq> None" unfolding lcells by blast
  next
    fix i j A
    assume "i < length ?cells" "j < grid_ncols ?cells" and A: "?cells ! i ! j = Some A"
    then have i: "i < ?nr" and j: "j < ?nc" unfolding gc by simp_all
    from A i j have st: "cell_stored (rs ! i) (g ! i ! j) = Some A" by simp
    show "wf_matrix A \<and> nrows A = rs ! i \<and> ncols A = cs ! j"
    proof (cases "is_number (g ! i ! j)")
      case True
      with st have nz: "num_val (g ! i ! j) \<noteq> 0"
        and Ad: "A = diagonal_matrix (rs ! i) (num_val (g ! i ! j))"
        by (auto simp: cell_stored_def split: if_splits)
      from diag [OF i j True nz] Ad wf_diagonal_matrix [of "rs ! i" "num_val (g ! i ! j)"]
      show ?thesis by simp
    next
      case False
      with st have Ad: "A = as_petsc (g ! i ! j)" by (simp add: cell_stored_def)
      from False cell [OF i j] have m: "is_petsc_mat (g ! i ! j)" "wf_matrix (as_petsc (g ! i ! j))"
        by (simp_all add: collapsed_cell_def)
      with mat_dims [OF i j m(1)] Ad show ?thesis by simp
    qed
  qed
  then obtain M where M: "numpy_block_mat ?cells = Inr M" "nrows M = sum_list rs"
    "ncols M = sum_list cs"
    and blk: "\<And>i j. i < ?nr \<Longrightarrow> j < ?nc \<Longrightarrow>
          sub_block M (sum_list (take i rs)) (sum_list (take j cs)) (rs ! i) (cs ! j)
            = (case ?cells ! i ! j of None \<Rightarrow> replicate (rs ! i) (replicate (cs ! j) 0)
               | Some A \<Rightarrow> entries A)"
    unfolding gc lcells by blast
  have conv: "convert V n (Block_mat g) algorithm = Inr (Plain (Mat M))"
    by (simp add: convert_def sizes T1 T2 alg block_mat_to_numpy_def T3 M(1) numpy_to_petsc_def)
  have "sub_block M (sum_list (take i rs)) (sum_list (take j cs)) (rs ! i) (cs ! j)
            = assembled_block (rs ! i) (cs ! j) (g ! i ! j)"
    if i: "i < ?nr" and j: "j < ?nc" for i j
    unfolding blk [OF i j] nth_cells [OF i j]
    by (simp add: cell_stored_def assembled_block_def)
  with conv M(2,3) show ?thesis by blast
qed


lemma ex_grid_sizes:
  "bmat_sizes reject_vectors (Block_mat ex_grid) = Inr (Mat_sizes [3, 2] [3, 2])"
  by (simp add: ex_grid_def bmat_sizes_def line_size_def grid_T_def grid_ncols_def
      ex_A_def ex_C23_def upt_rec)

theorem convert_scalar_blocks_witness:
  "\<exists>M. convert reject_vectors 1 (Block_mat ex_grid) (Some ''numpy'') = Inr (Plain (Mat M))
     \<and> nrows M = 5 \<and> ncols M = 5
     \<and> sub_block M 0 0 3 3 = [[2, 0, 0], [0, 2, 0], [0, 0, 2]]
     \<and> sub_block M 3 3 2 2 = [[0, 0], [0, 0]]"
proof -
  have h1: "(0::nat) < 1" by simp
  have h2: "\<not> falsy (Some ''numpy'')" by (simp add: falsy_def)
  have h3: "ex_grid \<noteq> []" by (simp add: ex_grid_def)
  have h4: "rectangular ex_grid" by (simp add: ex_grid_def rectangular_def grid_ncols_def)
  have h5: "list_all (list_all collapsed_cell) ex_grid"
    by (simp add: ex_grid_def collapsed_cell_def kind_defs wf_matrix_def ex_A_def ex_C23_def)
  have h6: "list_all (\<lambda>h. 0 < h) [3, 2 :: nat]" by simp
  have h7: "scalars_on_diagonal [3, 2] [3, 2] ex_grid"
    by (simp add: scalars_on_diagonal_def ex_grid_def grid_ncols_def kind_defs
        less_Suc_eq all_conj_distrib)
  from convert_scalar_blocks [OF h1 h2 h3 h4 h5 ex_grid_sizes h6 h6 h7]
  obtain M where c: "convert reject_vectors 1 (Block_mat ex_grid) (Some ''numpy'')
        = Inr (Plain (Mat M))"
    and d: "nrows M = sum_list [3, 2]" "ncols M = sum_list [3, 2]"
    and b: "\<forall>i<length ex_grid. \<forall>j<grid_ncols ex_grid.
          sub_block M (sum_list (take i [3, 2])) (sum_list (take j [3, 2]))
            ([3, 2] ! i) ([3, 2] ! j)
            = assembled_block ([3, 2] ! i) ([3, 2] ! j) (ex_grid ! i ! j)"
    by blast
  from b [rule_format, of 0 0] have b0: "sub_block M 0 0 3 3 = [[2, 0, 0], [0, 2, 0], [0, 0, 2]]"
    by (simp add: ex_grid_def grid_ncols_def assembled_block_def kind_defs
        diagonal_matrix_def upt_rec)
  from b [rule_format, of 1 1] have b1: "sub_block M 3 3 2 2 = [[0, 0], [0, 0]]"
    by (simp add: ex_grid_def grid_ncols_def assembled_block_def kind_defs
        numeral_2_eq_2)
  from c d b0 b1 show ?thesis by simp
qed

text \<open>
  The claim as stated fails on a grid made of scalars only: for the 2 by 2 grid with 2 on
  the diagonal and 0 elsewhere no size can be inferred, and \<^verbatim>\<open>bmat_sizes\<close>, called first
  by \<^verbatim>\<open>convert\<close>, fails its assertion.
\<close>

theorem convert_all_scalar_grid_fails:
  "convert reject_vectors 10 (Block_mat [[Num 2, Num 0], [Num 0, Num 2]]) (Some ''numpy'')
     = Inl AssertionError"
  by (simp add: convert_def bmat_sizes_def line_size_def)

section \<open>Properties of \<^verbatim>\<open>ii_Function\<close>\<close>

text \<open>
  C10 (indexed access and iteration), as amended. For a view over \<open>N\<close> components,
  \<^verbatim>\<open>self[i]\<close> is the \<open>i\<close>-th component when \<open>0 \<le> i < N\<close>; for every other \<open>i\<close>, negative
  ones included, the explicit bounds assertion of \<^verbatim>\<open>__getitem__\<close> fails, so the call ends
  in \<open>AssertionError\<close>. The list's own \<open>IndexError\<close> and its wrap-around for negative
  indices are never reached. Iteration yields the \<open>N\<close> components in order.
\<close>

theorem ii_getitem_bounds:
  "(0 \<le> i \<and> i < int (ii_len self) \<longrightarrow> ii_getitem self i = Inr (functions_of self ! nat i))
   \<and> (\<not> (0 \<le> i \<and> i < int (ii_len self)) \<longrightarrow> ii_getitem self i = Inl AssertionError)
   \<and> ii_iter self = Inr (functions_of self)"
proof -
  have it: "ii_iter self = Inr (map (\<lambda>k. functions_of self ! k) [0..<ii_len self])"
    unfolding ii_iter_def
    by (rule traverse_all_Inr) (simp add: ii_getitem_def list_subscript_def ii_len_def)
  have "map (\<lambda>k. functions_of self ! k) [0..<ii_len self] = functions_of self"
    by (simp add: ii_len_def map_nth)
  with it show ?thesis
    by (simp add: ii_getitem_def list_subscript_def ii_len_def)
qed

theorem ii_getitem_bounds_witness:
  "ii_getitem (II_Function [10, 20, 30 :: nat]) 1 = Inr 20
   \<and> ii_getitem (II_Function [10, 20, 30 :: nat]) (- 1) = Inl AssertionError
   \<and> ii_getitem (II_Function [10, 20, 30 :: nat]) 3 = Inl AssertionError
   \<and> ii_iter (II_Function [10, 20, 30 :: nat]) = Inr [10, 20, 30]"
  using ii_getitem_bounds [of 1 "II_Function [10, 20, 30 :: nat]"]
    ii_getitem_bounds [of "- 1" "II_Function [10, 20, 30 :: nat]"]
    ii_getitem_bounds [of 3 "II_Function [10, 20, 30 :: nat]"]
  by (simp add: ii_len_def)

text \<open>
  The claim as stated fails: outside \<open>[0, N)\<close> the error is not \<open>IndexError\<close>. For a view
  over three components, the indices \<open>- 1\<close> and \<open>3\<close> end in \<open>AssertionError\<close>.
\<close>

theorem ii_getitem_error_is_not_IndexError:
  "ii_getitem (II_Function [10, 20, 30 :: nat]) (- 1) \<noteq> Inl IndexError
   \<and> ii_getitem (II_Function [10, 20, 30 :: nat]) 3 \<noteq> Inl IndexError
   \<and> ii_getitem (II_Function [10, 20, 30 :: nat]) (- 1) = Inl AssertionError
   \<and> ii_getitem (II_Function [10, 20, 30 :: nat]) 3 = Inl AssertionError"
  by (simp add: ii_getitem_def ii_len_def)

end
